theory Spec2Isabelle
  imports Complex_Main "HOL-Library.AList"
begin

section \<open>Deep work tracker: data model\<close>

text \<open>
  The embedding follows \<^verbatim>\<open>src/deepwork.py\<close>, class \<^verbatim>\<open>DeepWorkTracker\<close> and
  \<^verbatim>\<open>main\<close>. Every exception the Python raises is a value of \<open>error\<close>; a method
  that can raise returns \<open>error + 'a\<close> with \<open>Inl\<close> the exception.

  Conventions of the model:
  \<^item> A point in time is a \<open>datetime\<close>: the wall-clock microseconds since
    \<^verbatim>\<open>datetime.min\<close> (0001-01-01T00:00:00) and the UTC offset in microseconds,
    \<open>None\<close> for a naive value. The upper end of Python's range (year 9999) is not
    modelled. \<^verbatim>\<open>datetime.now()\<close> is the clock reading passed to each operation and
    is naive.
  \<^item> A timestamp string is represented by what \<^verbatim>\<open>datetime.fromisoformat\<close> makes of
    it: \<open>Iso t\<close> is a string that parses to \<open>t\<close>, \<open>NotIso s\<close> is a string \<open>s\<close> that
    the parser rejects with \<^verbatim>\<open>ValueError\<close>.
  \<^item> The text of a file is represented by what \<^verbatim>\<open>json.load\<close> makes of it: \<open>Json d\<close>
    decodes to the ledger \<open>d\<close>, \<open>Garbled s\<close> is a text \<open>s\<close> that the decoder rejects
    (the empty file is \<open>Garbled []\<close>), \<open>Csv xs\<close> is the table \<^verbatim>\<open>export_to_csv\<close>
    writes for the sessions \<open>xs\<close> (a header row and one row per session, which is
    not JSON), \<open>Locked\<close> is a file that \<^verbatim>\<open>open\<close> refuses with
    \<^verbatim>\<open>PermissionError\<close>.
  \<^item> Durations and hour totals are exact rationals; the binary representation error
    of Python floats is outside the model. \<^verbatim>\<open>round(x, 2)\<close> is rounding to the
    nearest hundredth, ties to the even hundredth.
\<close>

datatype error =
    FileNotFoundError
  | PermissionError
  | JSONDecodeError
  | TypeError
  | ValueError
  | AttributeError
  | NameError

record datetime =
  ticks :: nat
  utcoffset :: "int option"

datatype timestamp = Iso datetime | NotIso string

record session =
  start_time :: timestamp
  end_time :: "timestamp option"
  duration :: rat
  category :: string
  description :: "string option"

text \<open>
  \<open>end_time\<close> is optional because \<^verbatim>\<open>main\<close> tests \<^verbatim>\<open>'end_time' in session\<close>; the
  dictionaries \<^verbatim>\<open>end_session\<close> builds always hold the key. \<open>description\<close> is
  optional because \<^verbatim>\<open>--description\<close> defaults to \<^verbatim>\<open>None\<close>. The goals dictionary
  keeps its insertion order, so it is an association list.
\<close>

record ledger =
  sessions :: "session list"
  goals :: "(string \<times> rat) list"

datatype stored = Json ledger | Garbled string | Csv "session list" | Locked

record tracker =
  filename :: string
  data :: ledger
  files :: "string \<rightharpoonup> stored"
  stdout :: "string list"

text \<open>
  A \<open>tracker\<close> is the object together with the part of the world its methods touch:
  the file system (\<open>files\<close>, path to file) and the lines printed so far (\<open>stdout\<close>).
  The \<^verbatim>\<open>print\<close> calls of the source pass plain string literals (none has the
  \<^verbatim>\<open>f\<close> prefix), so each prints its literal text, braces included.
\<close>

definition empty_ledger :: ledger where
  "empty_ledger = \<lparr>sessions = [], goals = []\<rparr>"

section \<open>Library functions\<close>

definition fromisoformat :: "timestamp \<Rightarrow> error + datetime" where
  "fromisoformat s = (case s of Iso t \<Rightarrow> Inr t | NotIso _ \<Rightarrow> Inl ValueError)"

definition isoformat :: "datetime \<Rightarrow> timestamp" where
  "isoformat t = Iso t"

definition now :: "nat \<Rightarrow> datetime" where
  "now clock = \<lparr>ticks = clock, utcoffset = None\<rparr>"

definition us_per_day :: nat where
  "us_per_day = 86400000000"

text \<open>\<^verbatim>\<open>.date()\<close>: the days since 0001-01-01, the wall-clock date of the value.\<close>

definition date :: "datetime \<Rightarrow> nat" where
  "date t = ticks t div us_per_day"

text \<open>\<^verbatim>\<open>.weekday()\<close>: Monday is 0; 0001-01-01 is a Monday.\<close>

definition weekday :: "datetime \<Rightarrow> nat" where
  "weekday t = date t mod 7"

text \<open>\<^verbatim>\<open>datetime.min.date()\<close>.\<close>

definition date_min :: nat where
  "date_min = 0"

text \<open>
  \<^verbatim>\<open>a - b\<close> on datetimes, in microseconds: two naive values subtract as they are,
  two aware values after each is moved to UTC, and a naive and an aware value do not
  subtract (\<^verbatim>\<open>TypeError\<close>).
\<close>

definition sub_datetime :: "datetime \<Rightarrow> datetime \<Rightarrow> error + int" where
  "sub_datetime a b =
     (case (utcoffset a, utcoffset b) of
        (None, None) \<Rightarrow> Inr (int (ticks a) - int (ticks b))
      | (Some oa, Some ob) \<Rightarrow> Inr ((int (ticks a) - oa) - (int (ticks b) - ob))
      | _ \<Rightarrow> Inl TypeError)"

definition total_seconds :: "int \<Rightarrow> rat" where
  "total_seconds delta = of_int delta / 1000000"

text \<open>
  \<^verbatim>\<open>round(x, 2)\<close>: the nearest multiple of one hundredth, a tie going to the even
  one. \<open>nearest\<close> is the nearest integer with the same rule for ties.
\<close>

definition nearest :: "rat \<Rightarrow> int" where
  "nearest a =
     (let n = \<lfloor>a\<rfloor>; r = a - of_int n
      in if r < 1 / 2 then n
         else if 1 / 2 < r then n + 1
         else if even n then n
         else n + 1)"

definition round2 :: "rat \<Rightarrow> rat" where
  "round2 x = of_int (nearest (x * 100)) / 100"

text \<open>\<^verbatim>\<open>sum(...)\<close>: starts at 0 and adds from the left.\<close>

definition py_sum :: "rat list \<Rightarrow> rat" where
  "py_sum xs = foldl (+) 0 xs"

section \<open>Loading and saving\<close>

text \<open>\<^verbatim>\<open>open(filename, 'r')\<close>.\<close>

definition open_read :: "string \<Rightarrow> (string \<rightharpoonup> stored) \<Rightarrow> error + stored" where
  "open_read fn fs =
     (case fs fn of
        None \<Rightarrow> Inl FileNotFoundError
      | Some Locked \<Rightarrow> Inl PermissionError
      | Some f \<Rightarrow> Inr f)"

text \<open>\<^verbatim>\<open>json.load(f)\<close> on an open file.\<close>

definition json_load :: "stored \<Rightarrow> error + ledger" where
  "json_load f =
     (case f of
        Json d \<Rightarrow> Inr d
      | Garbled _ \<Rightarrow> Inl JSONDecodeError
      | Csv _ \<Rightarrow> Inl JSONDecodeError
      | Locked \<Rightarrow> Inl PermissionError)"

text \<open>
  \<^verbatim>\<open>load_data\<close> (lines 14-19): the \<^verbatim>\<open>try\<close> body opens and decodes; only
  \<^verbatim>\<open>FileNotFoundError\<close> is caught.
\<close>

definition load_data :: "string \<Rightarrow> (string \<rightharpoonup> stored) \<Rightarrow> error + ledger" where
  "load_data fn fs =
     (case (case open_read fn fs of Inl e \<Rightarrow> Inl e | Inr f \<Rightarrow> json_load f) of
        Inl FileNotFoundError \<Rightarrow> Inr empty_ledger
      | Inl e \<Rightarrow> Inl e
      | Inr d \<Rightarrow> Inr d)"

text \<open>
  \<^verbatim>\<open>__init__\<close> (lines 10-12). The default file name is
  \<^verbatim>\<open>'deep_work_data.json'\<close>.
\<close>

definition default_filename :: string where
  "default_filename = ''deep_work_data.json''"

definition init :: "string \<Rightarrow> (string \<rightharpoonup> stored) \<Rightarrow> string list \<Rightarrow> error + tracker" where
  "init fn fs out =
     (case load_data fn fs of
        Inl e \<Rightarrow> Inl e
      | Inr d \<Rightarrow> Inr \<lparr>filename = fn, data = d, files = fs, stdout = out\<rparr>)"

text \<open>
  \<^verbatim>\<open>save_data\<close> (lines 21-23). \<^verbatim>\<open>open(self.filename, 'w')\<close> creates the file or
  truncates it to the empty text. Then \<^verbatim>\<open>json.dump(self.data, f, incident=2)\<close>
  raises \<^verbatim>\<open>TypeError\<close>: \<^verbatim>\<open>json.dump\<close> hands its unknown keywords to the
  constructor of \<^verbatim>\<open>JSONEncoder\<close>, which has no keyword \<^verbatim>\<open>incident\<close> (the keyword
  is \<^verbatim>\<open>indent\<close>). The encoder is built before the first chunk is written, so the
  \<^verbatim>\<open>with\<close> block closes an empty file and the exception leaves the method.
\<close>

definition json_dump_keywords :: "string list" where
  "json_dump_keywords =
     [''skipkeys'', ''ensure_ascii'', ''check_circular'', ''allow_nan'', ''cls'',
      ''indent'', ''separators'', ''default'', ''sort_keys'']"

definition json_dump :: "ledger \<Rightarrow> string list \<Rightarrow> error + stored" where
  "json_dump d kws =
     (if list_all (\<lambda>k. k \<in> set json_dump_keywords) kws then Inr (Json d)
      else Inl TypeError)"

definition save_data :: "tracker \<Rightarrow> (error + unit) \<times> tracker" where
  "save_data t =
     (case files t (filename t) of
        Some Locked \<Rightarrow> (Inl PermissionError, t)
      | _ \<Rightarrow>
          (let t' = t\<lparr>files := (files t)(filename t \<mapsto> Garbled [])\<rparr>
           in case json_dump (data t) [''incident''] of
                Inl e \<Rightarrow> (Inl e, t')
              | Inr f \<Rightarrow> (Inr (), t'\<lparr>files := (files t')(filename t \<mapsto> f)\<rparr>)))"

section \<open>Sessions\<close>

definition prints :: "string list \<Rightarrow> tracker \<Rightarrow> tracker" where
  "prints lines t = t\<lparr>stdout := stdout t @ lines\<rparr>"

definition print :: "string \<Rightarrow> tracker \<Rightarrow> tracker" where
  "print line t = prints [line] t"

text \<open>\<^verbatim>\<open>start_session\<close> (lines 25-28): reads the clock, prints, changes no data.\<close>

definition start_session :: "nat \<Rightarrow> string \<Rightarrow> tracker \<Rightarrow> (timestamp \<times> string) \<times> tracker" where
  "start_session clock cat t =
     (let start = isoformat (now clock)
      in ((start, cat), print ''Deep work started at {start_time}'' t))"

text \<open>
  \<^verbatim>\<open>end_session\<close> (lines 30-42). The end time is the clock reading; both
  strings are parsed (the end time first), subtracted, and the difference in hours is
  rounded. Nothing compares the two times. The session is appended to the list in
  memory, then \<^verbatim>\<open>save_data\<close> runs; the last \<^verbatim>\<open>print\<close> is reached only if
  \<^verbatim>\<open>save_data\<close> returns.
\<close>

definition hours_between :: "datetime \<Rightarrow> datetime \<Rightarrow> error + rat" where
  "hours_between e s =
     (case sub_datetime e s of
        Inl err \<Rightarrow> Inl err
      | Inr delta \<Rightarrow> Inr (total_seconds delta / 3600))"

definition append_session :: "session \<Rightarrow> tracker \<Rightarrow> tracker" where
  "append_session s t = t\<lparr>data := (data t)\<lparr>sessions := sessions (data t) @ [s]\<rparr>\<rparr>"

definition end_session ::
  "nat \<Rightarrow> timestamp \<Rightarrow> string \<Rightarrow> string option \<Rightarrow> tracker \<Rightarrow> (error + unit) \<times> tracker" where
  "end_session clock start cat descr t =
     (let end_iso = isoformat (now clock)
      in case fromisoformat end_iso of
           Inl err \<Rightarrow> (Inl err, t)
         | Inr e \<Rightarrow>
             (case fromisoformat start of
                Inl err \<Rightarrow> (Inl err, t)
              | Inr s \<Rightarrow>
                  (case hours_between e s of
                     Inl err \<Rightarrow> (Inl err, t)
                   | Inr d \<Rightarrow>
                       (let new = \<lparr>start_time = start, end_time = Some end_iso,
                                   duration = round2 d, category = cat,
                                   description = descr\<rparr>
                        in case save_data (append_session new t) of
                             (Inl err, t') \<Rightarrow> (Inl err, t')
                           | (Inr _, t') \<Rightarrow>
                               (Inr (),
                                print ''Session ended. Duration: {round(duration, 2)}hours'' t')))))"

text \<open>
  \<^verbatim>\<open>list_sessions\<close> (lines 44-52): seven lines for each session, the last one
  empty. The lines are literals, so no key of the session is read.
\<close>

definition session_lines :: "string list" where
  "session_lines =
     [''Session {i}:'', ''Start: {session['start_time']}'', ''End: {session['end_time']}'',
      ''Duration: {session['duration']} hours'', ''Category: {session['category]}'',
      ''Description: {session['description']}'', []]"

definition list_sessions :: "tracker \<Rightarrow> tracker" where
  "list_sessions t = prints (concat (map (\<lambda>_. session_lines) (sessions (data t)))) t"

text \<open>\<^verbatim>\<open>get_total_time\<close> (lines 54-56).\<close>

definition get_total_time :: "tracker \<Rightarrow> rat" where
  "get_total_time t = round2 (py_sum (map duration (sessions (data t))))"

section \<open>Summaries\<close>

record summary =
  total_time :: rat
  category_time :: "(string \<times> rat) list"
  num_sessions :: nat

text \<open>
  Lines 59-64. The two clock readings of line 62 are one instant in the model.
  \<^verbatim>\<open>today - timedelta(days=weekday)\<close> never leaves the range of dates:
  the weekday index is the date modulo 7, so the subtraction on \<open>nat\<close> does not
  truncate. Every period other than \<^verbatim>\<open>'daily'\<close> and \<^verbatim>\<open>'weekly'\<close> takes the
  \<^verbatim>\<open>else\<close> branch.
\<close>

definition start_date :: "nat \<Rightarrow> string \<Rightarrow> nat" where
  "start_date clock period =
     (if period = ''daily'' then date (now clock)
      else if period = ''weekly'' then date (now clock) - weekday (now clock)
      else date_min)"

text \<open>
  Lines 66-69, the list comprehension: each session's \<^verbatim>\<open>start_time\<close> is parsed in
  list order, and the first one that does not parse raises.
\<close>

fun filtered_sessions :: "nat \<Rightarrow> session list \<Rightarrow> error + session list" where
  "filtered_sessions sd [] = Inr []"
| "filtered_sessions sd (s # ss) =
     (case fromisoformat (start_time s) of
        Inl err \<Rightarrow> Inl err
      | Inr st \<Rightarrow>
          (case filtered_sessions sd ss of
             Inl err \<Rightarrow> Inl err
           | Inr rest \<Rightarrow> Inr (if sd \<le> date st then s # rest else rest)))"

text \<open>
  Lines 72-74: \<^verbatim>\<open>defaultdict(float)\<close> reads a missing key as 0; the dictionary keeps
  the order in which the categories first appear.
\<close>

definition get_default :: "(string \<times> rat) list \<Rightarrow> string \<Rightarrow> rat \<Rightarrow> rat" where
  "get_default d k v = (case map_of d k of None \<Rightarrow> v | Some x \<Rightarrow> x)"

fun accumulate :: "session list \<Rightarrow> (string \<times> rat) list \<Rightarrow> (string \<times> rat) list" where
  "accumulate [] ct = ct"
| "accumulate (s # ss) ct =
     accumulate ss (AList.update (category s) (get_default ct (category s) 0 + duration s) ct)"

definition get_summary :: "nat \<Rightarrow> string \<Rightarrow> tracker \<Rightarrow> error + summary" where
  "get_summary clock period t =
     (case filtered_sessions (start_date clock period) (sessions (data t)) of
        Inl err \<Rightarrow> Inl err
      | Inr fs \<Rightarrow>
          Inr \<lparr>total_time = round2 (py_sum (map duration fs)),
               category_time = map (\<lambda>(k, v). (k, round2 v)) (accumulate fs []),
               num_sessions = length fs\<rparr>)"

text \<open>
  \<^verbatim>\<open>export_to_csv\<close> (lines 82-89): the file is opened for writing and receives
  the header and one row per session of the ledger, in order.
\<close>

definition export_to_csv :: "string \<Rightarrow> tracker \<Rightarrow> (error + unit) \<times> tracker" where
  "export_to_csv fn t =
     (case files t fn of
        Some Locked \<Rightarrow> (Inl PermissionError, t)
      | _ \<Rightarrow>
          (Inr (),
           print ''Data exported to {filename}''
             (t\<lparr>files := (files t)(fn \<mapsto> Csv (sessions (data t)))\<rparr>)))"

text \<open>
  \<^verbatim>\<open>pomodoro_timer\<close> (lines 91-94): \<^verbatim>\<open>time.sleep\<close> refuses a negative length
  with \<^verbatim>\<open>ValueError\<close>; the time that passes is not part of the state.
\<close>

definition pomodoro_timer :: "int \<Rightarrow> tracker \<Rightarrow> (error + unit) \<times> tracker" where
  "pomodoro_timer minutes t =
     (let t1 = print ''Starting pomodoro timer for {duration} miniutes...'' t
      in if minutes * 60 < 0 then (Inl ValueError, t1)
         else (Inr (), print ''Pomodoro session completed!'' t1))"

section \<open>Goals and score\<close>

text \<open>\<^verbatim>\<open>set_goal\<close> (lines 96-99) and \<^verbatim>\<open>get_goals\<close> (lines 101-102).\<close>

definition set_goal :: "string \<Rightarrow> rat \<Rightarrow> tracker \<Rightarrow> (error + unit) \<times> tracker" where
  "set_goal cat hours_per_week t =
     (let t1 = t\<lparr>data := (data t)\<lparr>goals := AList.update cat hours_per_week (goals (data t))\<rparr>\<rparr>
      in case save_data t1 of
           (Inl err, t') \<Rightarrow> (Inl err, t')
         | (Inr _, t') \<Rightarrow>
             (Inr (), print ''Goal set for {category}: {hours_per_week} hours per week'' t'))"

definition get_goals :: "tracker \<Rightarrow> (string \<times> rat) list" where
  "get_goals t = goals (data t)"

text \<open>
  Attribute lookup: a name that the object does not have raises
  \<^verbatim>\<open>AttributeError\<close>. The lists hold the public attributes of a \<^verbatim>\<open>dict\<close>, of a
  \<^verbatim>\<open>DeepWorkTracker\<close>, of the object \<^verbatim>\<open>add_subparsers\<close> returns and of an
  \<^verbatim>\<open>ArgumentParser\<close> that the program could name.
\<close>

definition getattr :: "string list \<Rightarrow> string \<Rightarrow> error + unit" where
  "getattr attrs name = (if name \<in> set attrs then Inr () else Inl AttributeError)"

definition dict_attributes :: "string list" where
  "dict_attributes =
     [''clear'', ''copy'', ''fromkeys'', ''get'', ''items'', ''keys'', ''pop'',
      ''popitem'', ''setdefault'', ''update'', ''values'']"

definition tracker_attributes :: "string list" where
  "tracker_attributes =
     [''filename'', ''data'', ''load_data'', ''save_data'', ''start_session'',
      ''end_session'', ''list_sessions'', ''get_total_time'', ''get_summary'',
      ''export_to_csv'', ''pomodoro_timer'', ''set_goal'', ''get_goals'',
      ''track_goals'', ''calculate_productivity_score'',
      ''visualize_time_distribution'']"

text \<open>
  \<^verbatim>\<open>track_goals\<close> (lines 104-118). With no goals it prints a hint and returns.
  Otherwise it takes the weekly summary, prints the heading and evaluates
  \<^verbatim>\<open>goals.item()\<close>: a \<^verbatim>\<open>dict\<close> has \<^verbatim>\<open>items\<close> and no \<^verbatim>\<open>item\<close>, so the loop is
  never entered. \<open>goal_progress\<close> is what the loop body would compute for each goal
  (category, goal, actual, progress), and \<open>goal_lines\<close> the four literal lines each
  iteration would print.
\<close>

definition progress :: "rat \<Rightarrow> rat \<Rightarrow> rat" where
  "progress actual_hours goal_hours =
     (if 0 < goal_hours then actual_hours / goal_hours * 100 else 0)"

definition goal_progress ::
  "summary \<Rightarrow> (string \<times> rat) list \<Rightarrow> (string \<times> rat \<times> rat \<times> rat) list" where
  "goal_progress weekly gs =
     map (\<lambda>(cat, goal_hours).
            (let actual_hours = get_default (category_time weekly) cat 0
             in (cat, goal_hours, actual_hours, progress actual_hours goal_hours))) gs"

definition goal_lines :: "string list" where
  "goal_lines =
     [''  {category}:'', ''     Goal: {goal_hours} hours'',
      ''     Actual: {actual_hours} hours'', ''     Progress: {progress:.2f}%'']"

definition track_goals :: "nat \<Rightarrow> tracker \<Rightarrow> (error + unit) \<times> tracker" where
  "track_goals clock t =
     (let gs = get_goals t
      in if gs = [] then
           (Inr (), print ''No goals set. Use 'set-goals' to set some goals first.'' t)
         else
           (case get_summary clock ''weekly'' t of
              Inl err \<Rightarrow> (Inl err, t)
            | Inr weekly \<Rightarrow>
                (let t1 = print ''Weekly Goal Tracking:'' t
                 in case getattr dict_attributes ''item'' of
                      Inl err \<Rightarrow> (Inl err, t1)
                    | Inr _ \<Rightarrow>
                        (Inr (),
                         prints (concat (map (\<lambda>_. goal_lines) (goal_progress weekly gs)))
                           t1))))"

text \<open>
  \<^verbatim>\<open>calculate_productivity_score\<close> (lines 120-129). Its first statement calls
  \<^verbatim>\<open>self.summary('weekly')\<close>; the class defines \<^verbatim>\<open>get_summary\<close> and no
  \<^verbatim>\<open>summary\<close>. The rest of the body is what would run on the weekly summary.
\<close>

definition calculate_productivity_score :: "nat \<Rightarrow> tracker \<Rightarrow> error + rat" where
  "calculate_productivity_score clock t =
     (case getattr tracker_attributes ''summary'' of
        Inl err \<Rightarrow> Inl err
      | Inr _ \<Rightarrow>
          (case get_summary clock ''weekly'' t of
             Inl err \<Rightarrow> Inl err
           | Inr weekly \<Rightarrow>
               (let base_score = total_time weekly;
                    session_bonus = of_nat (num_sessions weekly) * (1 / 2);
                    score = base_score + session_bonus
                in Inr (round2 score))))"

text \<open>
  \<^verbatim>\<open>visualize_time_distribution\<close> (lines 131-143): takes the summary of all
  sessions and shows a chart of it; the tracker and the files are not changed.
\<close>

definition visualize_time_distribution :: "nat \<Rightarrow> tracker \<Rightarrow> (error + unit) \<times> tracker" where
  "visualize_time_distribution clock t =
     (case get_summary clock ''all'' t of
        Inl err \<Rightarrow> (Inl err, t)
      | Inr _ \<Rightarrow> (Inr (), t))"

section \<open>The command line\<close>

text \<open>
  \<^verbatim>\<open>main\<close>, lines 146-189: the parser is built by a sequence of calls, each of which
  may raise; the first exception ends \<^verbatim>\<open>main\<close>. \<^verbatim>\<open>add_argument\<close> accepts the
  keywords of \<open>add_argument_keywords\<close> and raises \<^verbatim>\<open>TypeError\<close> on any other.
  The calls with positional arguments only (\<^verbatim>\<open>ArgumentParser\<close>,
  \<^verbatim>\<open>add_subparsers\<close>, \<^verbatim>\<open>add_parser\<close>) do not raise and are left out.
\<close>

definition add_argument_keywords :: "string list" where
  "add_argument_keywords =
     [''action'', ''nargs'', ''const'', ''default'', ''type'', ''choices'',
      ''required'', ''help'', ''metavar'', ''dest'']"

definition add_argument :: "string list \<Rightarrow> error + unit" where
  "add_argument kws =
     (if list_all (\<lambda>k. k \<in> set add_argument_keywords) kws then Inr ()
      else Inl TypeError)"

definition subparsers_attributes :: "string list" where
  "subparsers_attributes = [''add_parser'']"

definition parser_attributes :: "string list" where
  "parser_attributes =
     [''add_argument'', ''add_subparsers'', ''parse_args'', ''parse_known_args'',
      ''print_help'', ''print_usage'', ''error'', ''exit'']"

fun run_steps :: "(error + unit) list \<Rightarrow> error + unit" where
  "run_steps [] = Inr ()"
| "run_steps (Inl err # _) = Inl err"
| "run_steps (Inr _ # rest) = run_steps rest"

definition build_parser :: "error + unit" where
  "build_parser =
     run_steps
       [add_argument [''help''],
        add_argument [''help''],
        add_argument [''choices'', ''default'', ''help''],
        add_argument [''help''],
        add_argument [''type'', ''defualt'', ''help''],
        add_argument [''help''],
        add_argument [''type'', ''help''],
        getattr subparsers_attributes ''add_paerser'',
        getattr parser_attributes ''parser_args'']"

text \<open>
  The parsed arguments that the branches read. \<open>action\<close> is \<open>None\<close> when no
  subcommand is given.
\<close>

record args =
  action :: "string option"
  arg_category :: string
  arg_description :: "string option"
  arg_period :: string
  arg_filename :: string
  arg_duration :: int
  arg_hours :: rat

text \<open>
  Lines 192-225, the dispatch. In the \<^verbatim>\<open>end\<close> branch the guard short-circuits
  on an empty list. In its \<^verbatim>\<open>else\<close> the second argument reads the local variable
  \<^verbatim>\<open>category\<close>, which is bound in the \<^verbatim>\<open>start\<close> branch only:
  \<^verbatim>\<open>NameError\<close>. The \<^verbatim>\<open>track_goals\<close> branch calls
  \<^verbatim>\<open>tracker.tracker_goals()\<close>, which the class does not define.
\<close>

definition dispatch :: "args \<Rightarrow> nat \<Rightarrow> tracker \<Rightarrow> (error + unit) \<times> tracker" where
  "dispatch a clock t =
     (if action a = Some ''start'' then
        (let (r, t') = start_session clock (arg_category a) t
         in (Inr (), print ''Started session in category '{category}' at {start_time}'' t'))
      else if action a = Some ''end'' then
        (if sessions (data t) = [] \<or> end_time (last (sessions (data t))) \<noteq> None then
           (Inr (), print ''No active session to end. Start a new session first.'' t)
         else (Inl NameError, t))
      else if action a = Some ''list'' then
        (Inr (), list_sessions t)
      else if action a = Some ''total'' then
        (Inr (), print ''Total deep work time: {total_time} hours'' t)
      else if action a = Some ''summary'' then
        (case get_summary clock (arg_period a) t of
           Inl err \<Rightarrow> (Inl err, t)
         | Inr s \<Rightarrow>
             (Inr (),
              prints
                ([''Summary for {args.period} period:'',
                  ''Total time: {summary['total_time]} hours'', ''Time by category:''] @
                 map (\<lambda>_. ''  {category}: {time} hours'') (category_time s) @
                 [''Number of sessions: {summary['num_sessions']}'']) t))
      else if action a = Some ''export'' then
        export_to_csv (arg_filename a) t
      else if action a = Some ''pomodoro'' then
        pomodoro_timer (arg_duration a) t
      else if action a = Some ''set_goal'' then
        set_goal (arg_category a) (arg_hours a) t
      else if action a = Some ''track_goals'' then
        (case getattr tracker_attributes ''tracker_goals'' of
           Inl err \<Rightarrow> (Inl err, t)
         | Inr _ \<Rightarrow> track_goals clock t)
      else if action a = Some ''score'' then
        (case calculate_productivity_score clock t of
           Inl err \<Rightarrow> (Inl err, t)
         | Inr _ \<Rightarrow> (Inr (), print ''Your current productivity score is: {score}'' t))
      else if action a = Some ''visualize'' then
        visualize_time_distribution clock t
      else (Inr (), t))"

text \<open>
  \<^verbatim>\<open>main\<close>: build the parser, read the arguments, construct the tracker on the
  default file, dispatch. The result is the outcome, the file system and the lines
  printed.
\<close>

definition main ::
  "args \<Rightarrow> nat \<Rightarrow> (string \<rightharpoonup> stored) \<Rightarrow> (error + unit) \<times> (string \<rightharpoonup> stored) \<times> string list" where
  "main a clock fs =
     (case build_parser of
        Inl err \<Rightarrow> (Inl err, fs, [])
      | Inr _ \<Rightarrow>
          (case init default_filename fs [] of
             Inl err \<Rightarrow> (Inl err, fs, [])
           | Inr t \<Rightarrow>
               (let (r, t') = dispatch a clock t in (r, files t', stdout t'))))"

section \<open>Vocabulary of the properties\<close>

text \<open>
  A session parses when \<^verbatim>\<open>fromisoformat\<close> accepts its \<^verbatim>\<open>start_time\<close>;
  \<open>start_day\<close> is then the date it starts on. \<open>counted_from sd xs\<close> are the sessions
  of \<open>xs\<close> that start on day \<open>sd\<close> or later, in their order; \<open>hours_in c xs\<close> is
  the sum of the durations of the sessions of \<open>xs\<close> in category \<open>c\<close>.
\<close>

definition parses :: "session \<Rightarrow> bool" where
  "parses s = (case start_time s of Iso _ \<Rightarrow> True | NotIso _ \<Rightarrow> False)"

definition start_day :: "session \<Rightarrow> nat" where
  "start_day s = (case start_time s of Iso t \<Rightarrow> date t | NotIso _ \<Rightarrow> 0)"

definition counted_from :: "nat \<Rightarrow> session list \<Rightarrow> session list" where
  "counted_from sd xs = filter (\<lambda>x. sd \<le> start_day x) xs"

definition hours_in :: "string \<Rightarrow> session list \<Rightarrow> rat" where
  "hours_in c xs = sum_list (map duration (filter (\<lambda>x. category x = c) xs))"

section \<open>Example data\<close>

text \<open>
  \<open>with_ledger xs gs\<close> is a tracker on the default file name holding the sessions
  \<open>xs\<close> and the goals \<open>gs\<close>, with no file on disk and nothing printed; \<open>fresh\<close> is
  the tracker \<^verbatim>\<open>DeepWorkTracker()\<close> builds when the data file does not exist.
  \<open>completed a b d c\<close> is a session record from clock reading \<open>a\<close> to \<open>b\<close>.

  The clock readings used below:
  \<^item> 63838659600000000 is 2023-12-20T09:00:00 and 63838663200000000 is
    2023-12-20T10:00:00;
  \<^item> 63839696400000000 is 2024-01-01T09:00:00 (a Monday) and 63839701800000000
    is 2024-01-01T10:30:00;
  \<^item> 63839869200000000 is 2024-01-03T09:00:00, 63839876400000000 is
    2024-01-03T11:00:00 and 63839880000000000 is 2024-01-03T12:00:00 (a Wednesday);
  \<^item> 63839955600000000 is 2024-01-04T09:00:00 and 63839959200000000 is
    2024-01-04T10:00:00;
  \<^item> 63840474000000000 is 2024-01-10T09:00:00 and 63840477600000000 is
    2024-01-10T10:00:00.
\<close>

definition with_ledger :: "session list \<Rightarrow> (string \<times> rat) list \<Rightarrow> tracker" where
  "with_ledger xs gs =
     \<lparr>filename = default_filename, data = \<lparr>sessions = xs, goals = gs\<rparr>,
      files = Map.empty, stdout = []\<rparr>"

definition fresh :: tracker where
  "fresh = with_ledger [] []"

definition completed :: "nat \<Rightarrow> nat \<Rightarrow> rat \<Rightarrow> string \<Rightarrow> session" where
  "completed a b d c =
     \<lparr>start_time = isoformat (now a), end_time = Some (isoformat (now b)), duration = d,
      category = c, description = None\<rparr>"

definition wednesday_noon :: nat where
  "wednesday_noon = 63839880000000000"

definition december_session :: session where
  "december_session = completed 63838659600000000 63838663200000000 1 ''focus''"

definition backwards_session :: session where
  "backwards_session = completed 63838663200000000 63838659600000000 (- 1) ''focus''"

definition wednesday_session :: session where
  "wednesday_session = completed 63839869200000000 63839876400000000 2 ''focus''"

definition thursday_session :: session where
  "thursday_session = completed 63839955600000000 63839959200000000 1 ''focus''"

definition next_week_session :: session where
  "next_week_session = completed 63840474000000000 63840477600000000 1 ''break''"

section \<open>Facts about loading and saving\<close>

lemma json_dump_incident: "json_dump d [''incident''] = Inl TypeError"
  by (simp add: json_dump_def json_dump_keywords_def)

lemma save_data_Locked:
  "files t (filename t) = Some Locked \<Longrightarrow> save_data t = (Inl PermissionError, t)"
  by (simp add: save_data_def)

lemma save_data_truncates:
  "files t (filename t) \<noteq> Some Locked \<Longrightarrow>
   save_data t = (Inl TypeError, t\<lparr>files := (files t)(filename t \<mapsto> Garbled [])\<rparr>)"
  by (simp add: save_data_def json_dump_incident Let_def split: option.splits stored.splits)

lemma save_data_raises: "\<exists>e. fst (save_data t) = Inl e"
  by (cases "files t (filename t) = Some Locked")
     (simp_all add: save_data_Locked save_data_truncates)

lemma save_data_keeps_data: "data (snd (save_data t)) = data t"
  by (cases "files t (filename t) = Some Locked")
     (simp_all add: save_data_Locked save_data_truncates)

lemma load_after_save:
  "load_data (filename t) (files (snd (save_data t))) =
     (if files t (filename t) = Some Locked then Inl PermissionError
      else Inl JSONDecodeError)"
  by (simp add: save_data_Locked save_data_truncates load_data_def open_read_def
      json_load_def)

text \<open>
  C1 (the code departs from the claim). The claim: for every Ledger state, \<^verbatim>\<open>save()\<close>
  followed by \<^verbatim>\<open>load()\<close> on the same path reproduces the Ledger. In the code
  \<^verbatim>\<open>save_data\<close> raises on every tracker (the misspelt keyword \<^verbatim>\<open>incident\<close>), and the
  \<^verbatim>\<open>load_data\<close> that follows on the same path raises too, since the file was
  truncated (or could not be opened): no ledger comes back, for any state.
\<close>

theorem save_then_load_never_reproduces:
  "(\<exists>e. fst (save_data t) = Inl e) \<and>
   (\<exists>e. load_data (filename t) (files (snd (save_data t))) = Inl e) \<and>
   load_data (filename t) (files (snd (save_data t))) \<noteq> Inr (data t)"
  by (simp add: save_data_raises load_after_save)

text \<open>
  C8. \<^verbatim>\<open>load_data\<close> returns the empty Ledger when the file is absent, and the
  absent file is the only failure it replaces by a ledger: a file that does not
  decode (corrupt text, or a CSV export) raises \<^verbatim>\<open>JSONDecodeError\<close>, a file that
  cannot be opened raises \<^verbatim>\<open>PermissionError\<close>, a file that decodes gives its own
  content. So whenever a ledger comes back, either the file was absent and the ledger
  is empty, or the ledger is what the file holds.
\<close>

theorem load_data_fallback:
  "(fs fn = None \<longrightarrow> load_data fn fs = Inr empty_ledger) \<and>
   (\<forall>txt. fs fn = Some (Garbled txt) \<longrightarrow> load_data fn fs = Inl JSONDecodeError) \<and>
   (\<forall>rows. fs fn = Some (Csv rows) \<longrightarrow> load_data fn fs = Inl JSONDecodeError) \<and>
   (fs fn = Some Locked \<longrightarrow> load_data fn fs = Inl PermissionError) \<and>
   (\<forall>d. fs fn = Some (Json d) \<longrightarrow> load_data fn fs = Inr d) \<and>
   (\<forall>d. load_data fn fs = Inr d \<longrightarrow>
        fs fn = None \<and> d = empty_ledger \<or> fs fn = Some (Json d))"
  by (auto simp: load_data_def open_read_def json_load_def
      split: option.splits stored.splits sum.splits error.splits)

text \<open>
  C8 at the five kinds of file at the default path: none, a text that is not JSON, an
  exported table, a file that cannot be opened, and a stored ledger with one goal.
\<close>

theorem load_data_fallback_witness:
  "load_data default_filename Map.empty = Inr empty_ledger \<and>
   load_data default_filename [default_filename \<mapsto> Garbled ''{''] = Inl JSONDecodeError \<and>
   load_data default_filename [default_filename \<mapsto> Csv []] = Inl JSONDecodeError \<and>
   load_data default_filename [default_filename \<mapsto> Locked] = Inl PermissionError \<and>
   load_data default_filename
       [default_filename \<mapsto> Json \<lparr>sessions = [], goals = [(''focus'', 10)]\<rparr>] =
     Inr \<lparr>sessions = [], goals = [(''focus'', 10)]\<rparr>"
  using load_data_fallback [of Map.empty default_filename]
    load_data_fallback [of "[default_filename \<mapsto> Garbled ''{'']" default_filename]
    load_data_fallback [of "[default_filename \<mapsto> Csv []]" default_filename]
    load_data_fallback [of "[default_filename \<mapsto> Locked]" default_filename]
    load_data_fallback
      [of "[default_filename \<mapsto> Json \<lparr>sessions = [], goals = [(''focus'', 10)]\<rparr>]"
          default_filename]
  by simp

section \<open>Facts about rounding and sums\<close>

lemma nearest_bounds: "\<lfloor>a\<rfloor> \<le> nearest a \<and> nearest a \<le> \<lfloor>a\<rfloor> + 1"
  by (simp add: nearest_def Let_def)

lemma nearest_mono:
  assumes "a \<le> b"
  shows "nearest a \<le> nearest b"
proof (cases "\<lfloor>a\<rfloor> = \<lfloor>b\<rfloor>")
  case True
  with assms show ?thesis
    by (auto simp: nearest_def Let_def)
next
  case False
  with assms have "\<lfloor>a\<rfloor> + 1 \<le> \<lfloor>b\<rfloor>"
    using floor_mono [of a b] by linarith
  with nearest_bounds [of a] nearest_bounds [of b] show ?thesis
    by linarith
qed

lemma round2_mono: "x \<le> y \<Longrightarrow> round2 x \<le> round2 y"
  by (simp add: round2_def nearest_mono divide_right_mono)

lemma round2_int [simp]: "round2 (of_int k) = of_int k"
proof -
  have "rat_of_int k * 100 = of_int (k * 100)"
    by simp
  then have "nearest (of_int k * 100) = k * 100"
    unfolding nearest_def Let_def by (simp only: floor_of_int) simp
  then show ?thesis
    by (simp add: round2_def)
qed

lemma round2_numeral [simp]:
  "round2 (numeral k) = numeral k"
  "round2 1 = 1"
  "round2 0 = 0"
  "round2 (- numeral k) = - numeral k"
  using round2_int [of "numeral k"] round2_int [of 1] round2_int [of 0]
    round2_int [of "- numeral k"]
  by simp_all

lemma round2_three_halves: "round2 (3 / 2) = 3 / 2" "round2 (- (3 / 2)) = - (3 / 2)"
  by code_simp+

lemma py_sum_sum_list: "py_sum xs = sum_list xs"
proof -
  have "foldl (+) a xs = a + sum_list xs" for a :: rat
    by (induction xs arbitrary: a) (simp_all add: add.assoc)
  then show ?thesis by (simp add: py_sum_def)
qed

section \<open>Ending a session\<close>

lemmas example_defs =
  wednesday_noon_def december_session_def backwards_session_def wednesday_session_def
  thursday_session_def next_week_session_def completed_def with_ledger_def fresh_def
  empty_ledger_def isoformat_def now_def

lemma end_session_raises: "\<exists>err. fst (end_session clock start cat descr t) = Inl err"
proof -
  have "\<exists>err. fst (case save_data u of
                     (Inl err, t') \<Rightarrow> (Inl err, t')
                   | (Inr x, t') \<Rightarrow> (Inr (), f t')) = Inl err"
    for u and f :: "tracker \<Rightarrow> tracker"
    using save_data_raises [of u] by (cases "save_data u") auto
  then show ?thesis
    by (auto simp: end_session_def Let_def split: sum.splits)
qed

lemma end_session_appends:
  "fromisoformat start = Inr s \<Longrightarrow> utcoffset s = None \<Longrightarrow>
   data (snd (end_session clock start cat descr t)) =
     (data t)\<lparr>sessions := sessions (data t) @
        [\<lparr>start_time = start, end_time = Some (isoformat (now clock)),
          duration = round2 (of_int (int clock - int (ticks s)) / 1000000 / 3600),
          category = cat, description = descr\<rparr>]\<rparr>"
proof -
  have "data (snd (case save_data u of
                     (Inl err, t') \<Rightarrow> (Inl err, t')
                   | (Inr x, t') \<Rightarrow> (Inr (), f t'))) = data u"
    for u and f :: "tracker \<Rightarrow> tracker"
    using save_data_raises [of u] save_data_keeps_data [of u] by (cases "save_data u") auto
  then show ?thesis if "fromisoformat start = Inr s" "utcoffset s = None"
    using that
    by (simp add: end_session_def Let_def isoformat_def fromisoformat_def now_def
        hours_between_def sub_datetime_def total_seconds_def append_session_def)
qed

text \<open>
  C2 (the code departs from the claim). The claim: \<^verbatim>\<open>end_session\<close> with a parseable
  start time not after the current time appends one session with the rounded duration
  and persists the updated Ledger; a session begun 1.5 hours earlier gets duration
  1.50. In the code, a session begun at 2024-01-01T09:00:00 and ended at 10:30:00 on
  a fresh tracker is appended in memory with duration 1.5, and then \<^verbatim>\<open>save_data\<close>
  raises \<^verbatim>\<open>TypeError\<close>: the data file is left empty and \<^verbatim>\<open>end_session\<close> does not
  return. No call of \<^verbatim>\<open>end_session\<close> returns normally.
\<close>

theorem end_session_not_persisted:
  "end_session 63839701800000000 (isoformat (now 63839696400000000)) ''writing''
       (Some ''draft'') fresh =
     (Inl TypeError,
      fresh\<lparr>data := \<lparr>sessions =
                 [\<lparr>start_time = isoformat (now 63839696400000000),
                   end_time = Some (isoformat (now 63839701800000000)),
                   duration = 3 / 2, category = ''writing'', description = Some ''draft''\<rparr>],
               goals = []\<rparr>,
            files := [default_filename \<mapsto> Garbled []]\<rparr>) \<and>
   (\<forall>clock start cat descr t. \<exists>err. fst (end_session clock start cat descr t) = Inl err)"
proof -
  have "end_session 63839701800000000 (isoformat (now 63839696400000000)) ''writing''
       (Some ''draft'') fresh =
     (Inl TypeError,
      fresh\<lparr>data := \<lparr>sessions =
                 [\<lparr>start_time = isoformat (now 63839696400000000),
                   end_time = Some (isoformat (now 63839701800000000)),
                   duration = 3 / 2, category = ''writing'', description = Some ''draft''\<rparr>],
               goals = []\<rparr>,
            files := [default_filename \<mapsto> Garbled []]\<rparr>)"
    by (simp add: end_session_def isoformat_def fromisoformat_def now_def hours_between_def
        sub_datetime_def total_seconds_def append_session_def save_data_truncates fresh_def
        with_ledger_def round2_three_halves)
  then show ?thesis using end_session_raises by blast
qed

text \<open>
  C3 (amended). \<^verbatim>\<open>end_session\<close> with a start time that does not parse raises the
  parser's error before anything is changed: the tracker, its ledger and the files
  are as before. Nothing compares the end time with the start time: for a parseable
  naive start time later than the captured end time, the session is appended to the
  ledger's sessions with the duration \<^verbatim>\<open>round((end - start) in hours, 2)\<close>, which
  is not positive.
\<close>

theorem end_session_validation:
  "(\<forall>err. fromisoformat start = Inl err \<longrightarrow>
       end_session clock start cat descr t = (Inl err, t)) \<and>
   (\<forall>s. fromisoformat start = Inr s \<and> utcoffset s = None \<and> clock < ticks s \<longrightarrow>
       sessions (data (snd (end_session clock start cat descr t))) =
         sessions (data t) @
         [\<lparr>start_time = start, end_time = Some (isoformat (now clock)),
           duration = round2 (of_int (int clock - int (ticks s)) / 1000000 / 3600),
           category = cat, description = descr\<rparr>] \<and>
       round2 (of_int (int clock - int (ticks s)) / 1000000 / 3600) \<le> 0)"
proof (intro conjI allI impI)
  fix err assume "fromisoformat start = Inl err"
  then show "end_session clock start cat descr t = (Inl err, t)"
    by (simp add: end_session_def Let_def isoformat_def fromisoformat_def)
next
  fix s assume a: "fromisoformat start = Inr s \<and> utcoffset s = None \<and> clock < ticks s"
  then show "sessions (data (snd (end_session clock start cat descr t))) =
         sessions (data t) @
         [\<lparr>start_time = start, end_time = Some (isoformat (now clock)),
           duration = round2 (of_int (int clock - int (ticks s)) / 1000000 / 3600),
           category = cat, description = descr\<rparr>]"
    by (simp add: end_session_appends)
  from a have "(of_int (int clock - int (ticks s)) / 1000000 / 3600 :: rat) \<le> 0"
    by (simp add: divide_le_0_iff)
  then show "round2 (of_int (int clock - int (ticks s)) / 1000000 / 3600) \<le> 0"
    using round2_mono [of "of_int (int clock - int (ticks s)) / 1000000 / 3600" 0]
    by simp
qed

text \<open>
  C3, the claim as stated fails: \<^verbatim>\<open>end_session\<close> called at 2024-01-01T09:00:00 with
  the start time 2024-01-01T10:30:00 records a session of duration -1.5 in the
  ledger.
\<close>

theorem end_session_negative_duration_recorded:
  "sessions (data (snd (end_session 63839696400000000 (isoformat (now 63839701800000000))
      ''writing'' None fresh))) =
     [\<lparr>start_time = isoformat (now 63839701800000000),
       end_time = Some (isoformat (now 63839696400000000)),
       duration = - (3 / 2), category = ''writing'', description = None\<rparr>]"
  by (simp add: end_session_appends [where s = "now 63839701800000000"] isoformat_def
     fromisoformat_def now_def fresh_def with_ledger_def round2_three_halves)

text \<open>
  C3 (amended) at two calls on a fresh tracker at 2024-01-01T09:00:00: one with the
  start time \<^verbatim>\<open>'yesterday'\<close>, one with the start time 2024-01-01T10:30:00.
\<close>

theorem end_session_validation_witness:
  "end_session 63839696400000000 (NotIso ''yesterday'') ''writing'' None fresh =
     (Inl ValueError, fresh) \<and>
   sessions (data (snd (end_session 63839696400000000 (isoformat (now 63839701800000000))
      ''writing'' None fresh))) =
     [\<lparr>start_time = isoformat (now 63839701800000000),
       end_time = Some (isoformat (now 63839696400000000)),
       duration = round2 (of_int (int 63839696400000000 - int 63839701800000000) / 1000000 / 3600),
       category = ''writing'', description = None\<rparr>] \<and>
   round2 (of_int (int 63839696400000000 - int 63839701800000000) / 1000000 / 3600) \<le> 0"
  using end_session_validation
      [of "NotIso ''yesterday''" 63839696400000000 "''writing''" None fresh]
    end_session_validation
      [of "isoformat (now 63839701800000000)" 63839696400000000 "''writing''" None fresh]
  by (simp add: fromisoformat_def isoformat_def now_def fresh_def with_ledger_def)

section \<open>Facts about summaries\<close>

lemma filtered_sessions_parses:
  "list_all parses xs \<Longrightarrow> filtered_sessions sd xs = Inr (counted_from sd xs)"
  by (induction xs)
     (auto simp: parses_def start_day_def counted_from_def fromisoformat_def
       split: timestamp.splits)

lemma filtered_sessions_fails:
  "\<not> list_all parses xs \<Longrightarrow> filtered_sessions sd xs = Inl ValueError"
  by (induction xs) (auto simp: parses_def fromisoformat_def split: timestamp.splits sum.splits)

lemma map_of_accumulate:
  "map_of (accumulate xs ct) c =
     (if c \<in> category ` set xs \<or> c \<in> fst ` set ct
      then Some (get_default ct c 0 + hours_in c xs)
      else None)"
proof (induction xs arbitrary: ct)
  case Nil
  show ?case
    by (auto simp: get_default_def hours_in_def map_of_eq_None_iff split: option.splits)
next
  case (Cons s ss)
  have step: "hours_in c (s # ss) = (if category s = c then duration s else 0) + hours_in c ss"
    by (simp add: hours_in_def)
  show ?case
    unfolding accumulate.simps Cons.IH step
    by (auto simp: get_default_def update_conv' dom_update map_of_eq_None_iff image_iff
        split: option.splits)
qed

lemma map_of_category_time:
  "map_of (map (\<lambda>(k, v). (k, round2 v)) (accumulate xs [])) c =
     (if c \<in> category ` set xs then Some (round2 (hours_in c xs)) else None)"
  by (simp add: map_of_map map_of_accumulate get_default_def)

lemma get_summary_parses:
  assumes "list_all parses (sessions (data t))"
  shows "get_summary clock period t =
     Inr \<lparr>total_time =
            round2 (sum_list (map duration
               (counted_from (start_date clock period) (sessions (data t))))),
          category_time = map (\<lambda>(k, v). (k, round2 v))
             (accumulate (counted_from (start_date clock period) (sessions (data t))) []),
          num_sessions = length (counted_from (start_date clock period) (sessions (data t)))\<rparr>"
  using assms
  by (simp add: get_summary_def filtered_sessions_parses py_sum_sum_list)

lemma get_summary_Inr_parses:
  "get_summary clock period t = Inr s \<Longrightarrow> list_all parses (sessions (data t))"
  using filtered_sessions_fails [of "sessions (data t)" "start_date clock period"]
  by (cases "list_all parses (sessions (data t))") (auto simp: get_summary_def)

lemma counted_from_date_min: "counted_from date_min xs = xs"
  by (simp add: counted_from_def date_min_def)

lemma start_date_all: "start_date clock ''all'' = date_min"
  by (simp add: start_date_def)

lemma start_date_daily: "start_date clock ''daily'' = date (now clock)"
  by (simp add: start_date_def)

lemma start_date_weekly: "start_date clock ''weekly'' = date (now clock) - weekday (now clock)"
  by (simp add: start_date_def)

lemma hours_in_counted_from_le:
  "list_all (\<lambda>x. 0 \<le> duration x) xs \<Longrightarrow> hours_in c (counted_from sd xs) \<le> hours_in c xs"
  by (induction xs) (auto simp: hours_in_def counted_from_def)

lemmas eval_defs =
  get_summary_def start_date_def date_def weekday_def us_per_day_def date_min_def
  fromisoformat_def py_sum_def get_default_def get_total_time_def

text \<open>
  C10. On a ledger whose sessions all have a parseable \<^verbatim>\<open>start_time\<close>,
  \<^verbatim>\<open>get_summary('all')\<close> returns, and its \<^verbatim>\<open>total_time\<close> equals
  \<^verbatim>\<open>get_total_time()\<close>: both are the sum of all the durations rounded to 2
  decimals, the period \<^verbatim>\<open>'all'\<close> filtering nothing out.
\<close>

theorem total_time_all_eq_get_total_time:
  assumes "list_all parses (sessions (data t))"
  shows "\<exists>s. get_summary clock ''all'' t = Inr s \<and>
             total_time s = get_total_time t \<and>
             get_total_time t = round2 (sum_list (map duration (sessions (data t))))"
  using assms
  by (simp add: get_summary_parses start_date_all counted_from_date_min get_total_time_def
      py_sum_sum_list)

text \<open>C10 on a ledger of two sessions, of 1 and 2 hours.\<close>

theorem total_time_all_eq_get_total_time_witness:
  "list_all parses (sessions (data (with_ledger [december_session, wednesday_session] []))) \<and>
   (\<exists>s. get_summary wednesday_noon ''all''
           (with_ledger [december_session, wednesday_session] []) = Inr s \<and>
        total_time s = get_total_time (with_ledger [december_session, wednesday_session] []) \<and>
        get_total_time (with_ledger [december_session, wednesday_session] []) = 3)"
proof -
  let ?t = "with_ledger [december_session, wednesday_session] []"
  have h: "list_all parses (sessions (data ?t))"
    by (simp add: example_defs parses_def)
  from total_time_all_eq_get_total_time [OF h, of wednesday_noon] h show ?thesis
    by (simp add: example_defs)
qed

text \<open>
  C4 (amended). On a ledger whose sessions all have a parseable \<^verbatim>\<open>start_time\<close>,
  \<^verbatim>\<open>get_summary('daily')\<close> counts, in \<^verbatim>\<open>num_sessions\<close>, \<^verbatim>\<open>total_time\<close> and
  \<^verbatim>\<open>category_time\<close>, exactly the sessions whose start date is today or later, and
  \<^verbatim>\<open>get_summary('weekly')\<close> exactly the sessions whose start date is the Monday of
  the current week (today minus today's weekday index) or later. The filter has a
  lower bound only.
\<close>

theorem get_summary_counts_from_start_date:
  assumes "list_all parses (sessions (data t))"
  shows "\<exists>d w.
     get_summary clock ''daily'' t = Inr d \<and>
     num_sessions d = length (counted_from (date (now clock)) (sessions (data t))) \<and>
     total_time d =
       round2 (sum_list (map duration (counted_from (date (now clock)) (sessions (data t))))) \<and>
     (\<forall>c. map_of (category_time d) c =
        (if c \<in> category ` set (counted_from (date (now clock)) (sessions (data t)))
         then Some (round2 (hours_in c (counted_from (date (now clock)) (sessions (data t)))))
         else None)) \<and>
     get_summary clock ''weekly'' t = Inr w \<and>
     num_sessions w =
       length (counted_from (date (now clock) - weekday (now clock)) (sessions (data t))) \<and>
     total_time w =
       round2 (sum_list (map duration
          (counted_from (date (now clock) - weekday (now clock)) (sessions (data t))))) \<and>
     (\<forall>c. map_of (category_time w) c =
        (if c \<in> category `
               set (counted_from (date (now clock) - weekday (now clock)) (sessions (data t)))
         then Some (round2 (hours_in c
                (counted_from (date (now clock) - weekday (now clock)) (sessions (data t)))))
         else None))"
  using assms
  by (simp add: get_summary_parses start_date_daily start_date_weekly map_of_category_time)

text \<open>
  C4, the claim as stated fails. At noon on Wednesday 2024-01-03 the daily summary
  counts a session that starts on the next day, and the weekly summary counts a
  session that starts on Wednesday of the following week, nine days after the Monday
  the current week begins with. On a ledger that holds a session whose start time does
  not parse, the summary raises and counts nothing.
\<close>

theorem summary_counts_later_dates:
  "date (now 63839955600000000) = date (now wednesday_noon) + 1 \<and>
   get_summary wednesday_noon ''daily'' (with_ledger [thursday_session] []) =
     Inr \<lparr>total_time = 1, category_time = [(''focus'', 1)], num_sessions = 1\<rparr> \<and>
   date (now 63840474000000000) =
     date (now wednesday_noon) - weekday (now wednesday_noon) + 9 \<and>
   get_summary wednesday_noon ''weekly'' (with_ledger [next_week_session] []) =
     Inr \<lparr>total_time = 1, category_time = [(''break'', 1)], num_sessions = 1\<rparr> \<and>
   get_summary wednesday_noon ''daily''
       (with_ledger [wednesday_session\<lparr>start_time := NotIso ''this morning''\<rparr>] []) =
     Inl ValueError"
  by (simp add: example_defs eval_defs)

text \<open>
  C4 (amended) at noon on Wednesday 2024-01-03, on a ledger with a session in
  December, one on that Wednesday and one on the Thursday after it: the daily and
  the weekly summary both count the last two.
\<close>

theorem get_summary_counts_from_start_date_witness:
  "list_all parses
     (sessions (data (with_ledger [december_session, wednesday_session, thursday_session] []))) \<and>
   (\<exists>d w.
      get_summary wednesday_noon ''daily''
        (with_ledger [december_session, wednesday_session, thursday_session] []) = Inr d \<and>
      num_sessions d = 2 \<and> total_time d = 3 \<and> map_of (category_time d) ''focus'' = Some 3 \<and>
      get_summary wednesday_noon ''weekly''
        (with_ledger [december_session, wednesday_session, thursday_session] []) = Inr w \<and>
      num_sessions w = 2 \<and> total_time w = 3 \<and> map_of (category_time w) ''focus'' = Some 3)"
proof -
  let ?t = "with_ledger [december_session, wednesday_session, thursday_session] []"
  have h: "list_all parses (sessions (data ?t))"
    by (simp add: example_defs parses_def)
  have c1: "counted_from (date (now wednesday_noon)) (sessions (data ?t)) =
      [wednesday_session, thursday_session]"
    by (simp add: example_defs counted_from_def start_day_def date_def us_per_day_def)
  have c2: "counted_from (date (now wednesday_noon) - weekday (now wednesday_noon))
      (sessions (data ?t)) = [wednesday_session, thursday_session]"
    by (simp add: example_defs counted_from_def start_day_def date_def weekday_def
        us_per_day_def)
  have f: "''focus'' \<in> category ` set [wednesday_session, thursday_session]"
    by (simp add: example_defs)
  have r: "round2 (hours_in ''focus'' [wednesday_session, thursday_session]) = 3"
    by (simp add: example_defs hours_in_def)
  from get_summary_counts_from_start_date [OF h, of wednesday_noon]
  obtain d w where
    "get_summary wednesday_noon ''daily'' ?t = Inr d"
    "num_sessions d = length [wednesday_session, thursday_session]"
    "total_time d = round2 (sum_list (map duration [wednesday_session, thursday_session]))"
    "map_of (category_time d) ''focus'' =
       (if ''focus'' \<in> category ` set [wednesday_session, thursday_session]
        then Some (round2 (hours_in ''focus'' [wednesday_session, thursday_session]))
        else None)"
    "get_summary wednesday_noon ''weekly'' ?t = Inr w"
    "num_sessions w = length [wednesday_session, thursday_session]"
    "total_time w = round2 (sum_list (map duration [wednesday_session, thursday_session]))"
    "map_of (category_time w) ''focus'' =
       (if ''focus'' \<in> category ` set [wednesday_session, thursday_session]
        then Some (round2 (hours_in ''focus'' [wednesday_session, thursday_session]))
        else None)"
    unfolding c1 c2 by blast
  moreover have "round2 (sum_list (map duration [wednesday_session, thursday_session])) = 3"
    by (simp add: example_defs)
  ultimately show ?thesis
    using h f r by (intro conjI exI [of _ d] exI [of _ w]) simp_all
qed

text \<open>
  C5 (amended). On a ledger whose sessions all have a non-negative duration, every
  \<^verbatim>\<open>category_time\<close> value of the weekly summary is at most the value the summary of
  the period \<^verbatim>\<open>'all'\<close> reports for the same category (which then exists).
\<close>

theorem weekly_category_time_le_all:
  assumes "list_all (\<lambda>x. 0 \<le> duration x) (sessions (data t))"
    and "get_summary clock ''weekly'' t = Inr w"
    and "map_of (category_time w) c = Some x"
  shows "\<exists>a y. get_summary clock ''all'' t = Inr a \<and>
               map_of (category_time a) c = Some y \<and> x \<le> y"
proof -
  let ?xs = "sessions (data t)"
  let ?ws = "counted_from (start_date clock ''weekly'') ?xs"
  have p: "list_all parses ?xs"
    using assms(2) by (rule get_summary_Inr_parses)
  have w: "category_time w = map (\<lambda>(k, v). (k, round2 v)) (accumulate ?ws [])"
    using assms(2) by (auto simp: get_summary_parses [OF p])
  have cw: "c \<in> category ` set ?ws" and x: "x = round2 (hours_in c ?ws)"
    using assms(3) by (auto simp: w map_of_category_time split: if_splits)
  have ca: "c \<in> category ` set ?xs"
    using cw by (auto simp: counted_from_def)
  have "round2 (hours_in c ?ws) \<le> round2 (hours_in c ?xs)"
    using assms(1) by (intro round2_mono hours_in_counted_from_le)
  then show ?thesis
    using ca x
    by (simp add: get_summary_parses [OF p] start_date_all counted_from_date_min
        map_of_category_time)
qed

text \<open>
  C5, the claim as stated fails. The ledger holds a session of category focus that
  \<^verbatim>\<open>end_session\<close> recorded on 2023-12-20 with the duration -1 (its start time an
  hour after its end time) and a session of 2 hours of the same category on Wednesday
  2024-01-03. At noon on that Wednesday the weekly summary reports 2 hours for focus
  and the summary of all sessions reports 1.
\<close>

theorem weekly_exceeds_all:
  "get_summary wednesday_noon ''weekly'' (with_ledger [backwards_session, wednesday_session] []) =
     Inr \<lparr>total_time = 2, category_time = [(''focus'', 2)], num_sessions = 1\<rparr> \<and>
   get_summary wednesday_noon ''all'' (with_ledger [backwards_session, wednesday_session] []) =
     Inr \<lparr>total_time = 1, category_time = [(''focus'', 1)], num_sessions = 2\<rparr>"
  by (simp add: example_defs eval_defs)

text \<open>
  C5 (amended) on a ledger with a focus session of 1 hour in December and one of 2
  hours on Wednesday 2024-01-03: 2 hours in the week, 3 in all.
\<close>

theorem weekly_category_time_le_all_witness:
  "list_all (\<lambda>x. 0 \<le> duration x)
     (sessions (data (with_ledger [december_session, wednesday_session] []))) \<and>
   get_summary wednesday_noon ''weekly'' (with_ledger [december_session, wednesday_session] []) =
     Inr \<lparr>total_time = 2, category_time = [(''focus'', 2)], num_sessions = 1\<rparr> \<and>
   (\<exists>a y. get_summary wednesday_noon ''all''
             (with_ledger [december_session, wednesday_session] []) = Inr a \<and>
      map_of (category_time a) ''focus'' = Some y \<and> 2 \<le> y)"
proof -
  let ?t = "with_ledger [december_session, wednesday_session] []"
  let ?w = "\<lparr>total_time = 2, category_time = [(''focus'', 2)], num_sessions = 1\<rparr>"
  have h1: "list_all (\<lambda>x. 0 \<le> duration x) (sessions (data ?t))"
    by (simp add: example_defs)
  have h2: "get_summary wednesday_noon ''weekly'' ?t = Inr ?w"
    by (simp add: example_defs eval_defs)
  have h3: "map_of (category_time ?w) ''focus'' = Some 2"
    by simp
  from weekly_category_time_le_all [OF h1 h2 h3] h1 h2 show ?thesis
    by simp
qed

section \<open>Goals, score and the command line\<close>

text \<open>
  C6 (the code departs from the claim). The claim: \<^verbatim>\<open>productivity_score()\<close> returns
  the weekly total time plus 0.5 times the weekly number of sessions, rounded to 2
  decimals. In the code \<^verbatim>\<open>calculate_productivity_score\<close> raises
  \<^verbatim>\<open>AttributeError\<close> on every tracker at every time: it calls
  \<^verbatim>\<open>self.summary\<close>, and the method is named \<^verbatim>\<open>get_summary\<close>.
\<close>

theorem calculate_productivity_score_raises:
  "calculate_productivity_score clock t = Inl AttributeError"
  by (simp add: calculate_productivity_score_def getattr_def tracker_attributes_def)

text \<open>
  C7 (the code departs from the claim). The claim: for every configured goals mapping
  \<^verbatim>\<open>goal_progress\<close> reports actual hours and progress for each goal category. In
  the code \<^verbatim>\<open>track_goals\<close> returns normally only when no goal is set. With any
  goal it raises: the error of the weekly summary if that fails, and otherwise
  \<^verbatim>\<open>AttributeError\<close> from \<^verbatim>\<open>goals.item()\<close>, after printing the heading and
  before the first goal is looked at. With the goal focus = 10 and 3 hours of focus in
  the week, at noon on Wednesday 2024-01-03, the heading is all that is printed.
\<close>

theorem track_goals_reports_nothing:
  "fst (track_goals clock t) =
     (if goals (data t) = [] then Inr ()
      else case get_summary clock ''weekly'' t of
             Inl err \<Rightarrow> Inl err
           | Inr _ \<Rightarrow> Inl AttributeError) \<and>
   stdout (snd (track_goals clock t)) =
     stdout t @
     (if goals (data t) = [] then [''No goals set. Use 'set-goals' to set some goals first.'']
      else case get_summary clock ''weekly'' t of
             Inl err \<Rightarrow> []
           | Inr _ \<Rightarrow> [''Weekly Goal Tracking:'']) \<and>
   track_goals wednesday_noon
       (with_ledger [wednesday_session, thursday_session] [(''focus'', 10)]) =
     (Inl AttributeError,
      (with_ledger [wednesday_session, thursday_session] [(''focus'', 10)])
        \<lparr>stdout := [''Weekly Goal Tracking:'']\<rparr>)"
proof -
  have "track_goals wednesday_noon
       (with_ledger [wednesday_session, thursday_session] [(''focus'', 10)]) =
     (Inl AttributeError,
      (with_ledger [wednesday_session, thursday_session] [(''focus'', 10)])
        \<lparr>stdout := [''Weekly Goal Tracking:'']\<rparr>)"
    by (simp add: track_goals_def get_goals_def getattr_def dict_attributes_def print_def
        prints_def example_defs eval_defs)
  then show ?thesis
    by (simp add: track_goals_def get_goals_def getattr_def dict_attributes_def print_def
        prints_def Let_def split: sum.splits)
qed

lemma build_parser_raises: "build_parser = Inl TypeError"
  by (simp add: build_parser_def add_argument_def add_argument_keywords_def)

text \<open>
  What the \<^verbatim>\<open>end\<close> branch of the dispatch does when it is reached with no pending
  session: it prints the message and changes nothing else.
\<close>

lemma dispatch_end_no_pending:
  "action a = Some ''end'' \<Longrightarrow>
   sessions (data t) = [] \<or> end_time (last (sessions (data t))) \<noteq> None \<Longrightarrow>
   dispatch a clock t =
     (Inr (), t\<lparr>stdout := stdout t @
        [''No active session to end. Start a new session first.'']\<rparr>)"
  by (auto simp: dispatch_def print_def prints_def)

text \<open>
  C9 (the code departs from the claim). The claim: \<^verbatim>\<open>end\<close> with no pending session
  reports that no session is active and leaves the persisted Ledger unchanged. In the
  code \<^verbatim>\<open>main\<close> raises \<^verbatim>\<open>TypeError\<close> while it builds the argument parser (the
  keyword \<^verbatim>\<open>defualt\<close> of the \<^verbatim>\<open>--duration\<close> argument), for every command line:
  the files are unchanged, and nothing is printed, the message of the \<^verbatim>\<open>end\<close>
  branch included.
\<close>

theorem main_raises_before_dispatch:
  "main a clock fs = (Inl TypeError, fs, [])"
  by (simp add: main_def build_parser_raises)

end
